theory Spec2Isabelle
  imports Complex_Main
begin

section \<open>Durable HTTP requests of \<open>clint_utilities\<close>\<close>

text \<open>
  The development embeds \<^verbatim>\<open>make_durable_request\<close> and \<^verbatim>\<open>make_durable_post\<close> of
  \<^verbatim>\<open>src/clint_utilities/__init__.py\<close>. The HTTP transport, \<^verbatim>\<open>time.sleep\<close> and the logger
  are collaborators of the code: the transport is a parameter that threads a state of its
  own, and every call of the transport, call of \<^verbatim>\<open>time.sleep\<close> and log line is recorded, in
  program order, in the list of events that the model returns beside the outcome.

  Conventions of the embedding:
  \<^item> Python's \<^verbatim>\<open>int\<close> is \<^typ>\<open>int\<close>; the delay (a \<^verbatim>\<open>float\<close>, or an \<^verbatim>\<open>int\<close> as in the tests) is an
    exact \<^typ>\<open>real\<close>, so doubling never rounds or overflows;
  \<^item> a raised exception is the value \<open>Raised e\<close>, falling off the end of a function is
    \<open>Returned\<close>;
  \<^item> \<^verbatim>\<open>time.sleep\<close> is a parameter as well: it returns or raises, depending on the duration;
  \<^item> the interpreter bounds the depth of the call stack: the room that is left for nested
    invocations of \<^verbatim>\<open>make_durable_request\<close> is a parameter, and a self-call without room
    raises \<^verbatim>\<open>RecursionError\<close>;
  \<^item> the logger always returns.
\<close>

subsection \<open>Data\<close>

text \<open>JSON payloads; the \<^verbatim>\<open>json\<close> argument is an \<^verbatim>\<open>Optional[Dict]\<close>.\<close>

datatype json_value =
    JNull
  | JBool bool
  | JInt int
  | JStr string
  | JList "json_value list"
  | JDict "(string \<times> json_value) list"

type_synonym dict = "(string \<times> json_value) list"

text \<open>What the code reads of a \<^verbatim>\<open>requests.Response\<close>: \<^verbatim>\<open>status_code\<close> and \<^verbatim>\<open>text\<close>.\<close>

record response =
  status_code :: int
  resp_text :: string

text \<open>
  The two shapes in which the transport is called: \<^verbatim>\<open>method(url=url)\<close> and
  \<^verbatim>\<open>method(url=url, json=json)\<close>.
\<close>

datatype kwargs =
    Kw_url string
  | Kw_url_json string dict

text \<open>
  One call of the transport either returns a response or raises. The \<^verbatim>\<open>except\<close> clause of
  the code names \<^verbatim>\<open>requests.exceptions.ConnectionError\<close> and \<^verbatim>\<open>socket.timeout\<close>; every other
  exception is \<open>Other_exception\<close>, with a description of it.
\<close>

datatype transport_result =
    Resp response
  | ConnectionError
  | Socket_timeout
  | Other_exception string

type_synonym 's transport = "kwargs \<Rightarrow> 's \<Rightarrow> transport_result \<times> 's"

text \<open>
  The exception classes of the module and the exceptions a call can end with.
  \<open>Transport_exn\<close> is an exception of the transport that the code does not catch and
  \<open>Sleep_exn\<close> an exception of \<^verbatim>\<open>time.sleep\<close>, each with a description of it.
\<close>

datatype success_class = RequestSuccess | StoreSuccess

datatype error_class = RequestError | StoreError

datatype exn =
    ValueError string
  | Success_exn success_class response
  | Error_exn error_class string
  | Transport_exn string
  | UnboundLocalError string
  | Sleep_exn string
  | RecursionError string

datatype 'a outcome = Returned 'a | Raised exn

datatype log_level = INFO | WARNING | ERROR

text \<open>
  \<open>Call kw\<close> is a call of the transport and \<open>Sleep d\<close> a call \<^verbatim>\<open>time.sleep(d)\<close>, whether the
  call returns or raises.
\<close>

datatype event =
    Call kwargs
  | Sleep real
  | Log log_level string

subsection \<open>Formatting of integers (\<^verbatim>\<open>%s\<close> of an \<^verbatim>\<open>int\<close>)\<close>

definition digit_char :: "nat \<Rightarrow> char" where
  "digit_char n = ''0123456789'' ! (n mod 10)"

function str_nat :: "nat \<Rightarrow> string" where
  "str_nat n = (if n < 10 then [digit_char n] else str_nat (n div 10) @ [digit_char (n mod 10)])"
  by pat_completeness auto
termination
  by (relation "measure (\<lambda>n. n)") auto

declare str_nat.simps [simp del]

definition str_int :: "int \<Rightarrow> string" where
  "str_int i = (if i < 0 then CHR ''-'' # str_nat (nat (- i)) else str_nat (nat i))"

subsection \<open>The durable request\<close>

text \<open>Truthiness, as \<^verbatim>\<open>x or default\<close> and \<^verbatim>\<open>if json:\<close> use it.\<close>

definition truthy_dict :: "dict option \<Rightarrow> bool" where
  "truthy_dict j = (case j of None \<Rightarrow> False | Some d \<Rightarrow> d \<noteq> [])"

definition or_success :: "success_class option \<Rightarrow> success_class" where
  "or_success c = (case c of None \<Rightarrow> RequestSuccess | Some k \<Rightarrow> k)"

definition or_error :: "error_class option \<Rightarrow> error_class" where
  "or_error c = (case c of None \<Rightarrow> RequestError | Some k \<Rightarrow> k)"

definition or_success_codes :: "int list option \<Rightarrow> int list" where
  "or_success_codes cs =
     (case cs of
        None \<Rightarrow> [200, 201, 202, 204]
      | Some l \<Rightarrow> if l = [] then [200, 201, 202, 204] else l)"

text \<open>The keyword arguments the transport is called with (lines 95 to 98).\<close>

definition method_kwargs :: "string \<Rightarrow> dict option \<Rightarrow> kwargs" where
  "method_kwargs url json =
     (case json of
        None \<Rightarrow> Kw_url url
      | Some d \<Rightarrow> if truthy_dict (Some d) then Kw_url_json url d else Kw_url url)"

text \<open>
  The \<^verbatim>\<open>try\<close> block (lines 94 to 100): the transport is called once; a connection error or a
  socket timeout is logged and leaves \<^verbatim>\<open>response\<close> at \<^verbatim>\<open>None\<close>, any other exception leaves the
  function.
\<close>

definition execute_request ::
  "'s transport \<Rightarrow> string \<Rightarrow> dict option \<Rightarrow> 's \<Rightarrow> (exn + response option) \<times> event list \<times> 's"
where
  "execute_request method url json s =
     (case method (method_kwargs url json) s of
        (Resp r, s1) \<Rightarrow> (Inr (Some r), [Call (method_kwargs url json)], s1)
      | (ConnectionError, s1) \<Rightarrow>
          (Inr None, [Call (method_kwargs url json), Log WARNING ''Network error.''], s1)
      | (Socket_timeout, s1) \<Rightarrow>
          (Inr None, [Call (method_kwargs url json), Log WARNING ''Network error.''], s1)
      | (Other_exception e, s1) \<Rightarrow>
          (Inl (Transport_exn e), [Call (method_kwargs url json)], s1))"

text \<open>
  The classification of the response (lines 103 to 118): \<open>Some e\<close> when the block raises
  \<open>e\<close>, \<open>None\<close> when control reaches line 120.
\<close>

definition process_outcomes ::
  "response option \<Rightarrow> int list \<Rightarrow> success_class \<Rightarrow> error_class \<Rightarrow> exn option \<times> event list"
where
  "process_outcomes response success_codes success error =
     (case response of
        None \<Rightarrow> (None, [])
      | Some r \<Rightarrow>
          if status_code r \<ge> 500 \<and> status_code r < 600 then
            (None, [Log WARNING ''Server error.''])
          else if status_code r \<in> set success_codes then
            (Some (Success_exn success r), [Log INFO ''Request was successful.''])
          else
            (Some (Error_exn error
               (''Could not complete request due to stauts code '' @ str_int (status_code r)
                  @ '': '' @ resp_text r)),
             [Log ERROR
               (''Could not complete request due to status code '' @ str_int (status_code r)
                  @ '': '' @ resp_text r)]))"

text \<open>
  \<^verbatim>\<open>make_durable_request\<close> (lines 74 to 134). \<open>sleep\<close> is \<^verbatim>\<open>time.sleep\<close>: \<open>None\<close> when the call
  returns, \<open>Some x\<close> when it raises the exception that \<open>x\<close> describes. \<open>room\<close> is the number of nested invocations of
  the function that the interpreter's stack still admits; the self-call of line 123 takes
  one, and with none left it raises \<^verbatim>\<open>RecursionError\<close>. An exception of the self-call leaves
  the caller as well; were the self-call to return, the caller would return after it.
\<close>

function make_durable_request ::
  "(real \<Rightarrow> string option) \<Rightarrow> nat \<Rightarrow> 's transport \<Rightarrow> string \<Rightarrow> int \<Rightarrow> real \<Rightarrow> int list option
     \<Rightarrow> success_class option \<Rightarrow> error_class option \<Rightarrow> dict option \<Rightarrow> 's
     \<Rightarrow> unit outcome \<times> event list \<times> 's"
where
  "make_durable_request sleep room method url num_attempts delay success_codes success error
     json s =
     (if num_attempts \<le> 0 then
        (Raised (ValueError ''The value of `num_attempts` must be greater than 0.''), [], s)
      else if delay < 0 then
        (Raised (ValueError ''The value of `delay` must be greater than or equal to 0.''), [], s)
      else
        (case execute_request method url json s of
           (Inl e, ev1, s1) \<Rightarrow> (Raised e, ev1, s1)
         | (Inr response, ev1, s1) \<Rightarrow>
             (case process_outcomes response (or_success_codes success_codes)
                     (or_success success) (or_error error) of
                (Some e, ev2) \<Rightarrow> (Raised e, ev1 @ ev2, s1)
              | (None, ev2) \<Rightarrow>
                  if num_attempts > 1 then
                    (case sleep delay of
                       Some x \<Rightarrow>
                         (Raised (Sleep_exn x),
                          ev1 @ ev2 @ [Log INFO ''Will retry request.'', Sleep delay], s1)
                     | None \<Rightarrow>
                         if room = 0 then
                           (Raised (RecursionError ''maximum recursion depth exceeded''),
                            ev1 @ ev2 @ [Log INFO ''Will retry request.'', Sleep delay], s1)
                         else
                           (case make_durable_request sleep (room - 1) method url
                                   (num_attempts - 1) (delay * 2)
                                   (Some (or_success_codes success_codes))
                                   (Some (or_success success)) (Some (or_error error)) json s1 of
                              (Raised e, ev3, s2) \<Rightarrow>
                                (Raised e,
                                 ev1 @ ev2 @ [Log INFO ''Will retry request.'', Sleep delay]
                                   @ ev3, s2)
                            | (Returned u, ev3, s2) \<Rightarrow>
                                (Returned (),
                                 ev1 @ ev2 @ [Log INFO ''Will retry request.'', Sleep delay]
                                   @ ev3, s2)))
                  else
                    (Raised (Error_exn (or_error error) ''Unable to complete request.''),
                     ev1 @ ev2, s1))))"
  by pat_completeness auto
termination
  by (relation "measure (\<lambda>(sleep, room, method, url, num_attempts, rest). nat num_attempts)")
    auto

declare make_durable_request.simps [simp del]

text \<open>
  \<^verbatim>\<open>make_durable_post\<close> (lines 137 to 153). \<^verbatim>\<open>requests.post\<close> is the parameter \<open>post\<close>. Only a
  \<^verbatim>\<open>StoreSuccess\<close> is caught; were the request to return, \<^verbatim>\<open>response\<close> would be unbound at the
  \<^verbatim>\<open>return\<close>.
\<close>

definition make_durable_post ::
  "(real \<Rightarrow> string option) \<Rightarrow> nat \<Rightarrow> 's transport \<Rightarrow> string \<Rightarrow> int \<Rightarrow> real \<Rightarrow> dict \<Rightarrow> 's
     \<Rightarrow> response outcome \<times> event list \<times> 's"
where
  "make_durable_post sleep room post url num_attempts delay json s =
     (case make_durable_request sleep room post url num_attempts delay (Some [201, 409])
             (Some StoreSuccess) (Some StoreError) (Some json) s of
        (Raised (Success_exn StoreSuccess r), ev, s1) \<Rightarrow> (Returned r, ev, s1)
      | (Raised e, ev, s1) \<Rightarrow> (Raised e, ev, s1)
      | (Returned u, ev, s1) \<Rightarrow>
          (Raised (UnboundLocalError
             ''local variable 'response' referenced before assignment''), ev, s1))"

subsection \<open>Notions used to state the properties\<close>

text \<open>
  The outcomes after which control reaches the retry decision of line 120: a connection
  error, a socket timeout, or a response with a status code from 500 to 599.
\<close>

definition retryable :: "transport_result \<Rightarrow> bool" where
  "retryable t =
     (case t of
        Resp r \<Rightarrow> 500 \<le> status_code r \<and> status_code r < 600
      | ConnectionError \<Rightarrow> True
      | Socket_timeout \<Rightarrow> True
      | Other_exception e \<Rightarrow> False)"

text \<open>The warning that the code logs for a retryable outcome.\<close>

definition retry_log :: "transport_result \<Rightarrow> event" where
  "retry_log t =
     (case t of
        Resp r \<Rightarrow> Log WARNING ''Server error.''
      | _ \<Rightarrow> Log WARNING ''Network error.'')"

text \<open>The transport calls and sleeps of a run, in order, without the log lines.\<close>

definition is_log :: "event \<Rightarrow> bool" where
  "is_log e = (case e of Log l m \<Rightarrow> True | _ \<Rightarrow> False)"

definition io_events :: "event list \<Rightarrow> event list" where
  "io_events ev = filter (\<lambda>e. \<not> is_log e) ev"

text \<open>
  \<open>k\<close> attempts that are each followed by a sleep, the sleeps lasting \<open>d\<close>, \<open>2d\<close>, \<open>4d\<close>
  and so on.
\<close>

definition backoff_trace :: "kwargs \<Rightarrow> real \<Rightarrow> nat \<Rightarrow> event list" where
  "backoff_trace kw d k = concat (map (\<lambda>i. [Call kw, Sleep (d * 2 ^ i)]) [0..<k])"

text \<open>The state of the transport after \<open>k\<close> calls with the same arguments.\<close>

primrec state_after :: "'s transport \<Rightarrow> kwargs \<Rightarrow> nat \<Rightarrow> 's \<Rightarrow> 's" where
  "state_after method kw 0 s = s"
| "state_after method kw (Suc k) s = state_after method kw k (snd (method kw s))"

subsection \<open>Collaborators for concrete runs\<close>

text \<open>
  The tests register canned responses with the \<^verbatim>\<open>responses\<close> mock: they are served in the
  order of registration, the last one again and again, and a request with nothing
  registered raises a connection error. The state counts the calls.
\<close>

definition replay :: "transport_result list \<Rightarrow> nat transport" where
  "replay rs kw n = (if rs = [] then ConnectionError else rs ! min n (length rs - 1), Suc n)"

text \<open>The payload of the tests.\<close>

definition resources_json :: dict where
  "resources_json =
     [(''resources'',
       JList [JDict [(''id'', JInt 1)], JDict [(''id'', JInt 2)], JDict [(''id'', JInt 3)]])]"

text \<open>
  A \<^verbatim>\<open>time.sleep\<close> for concrete runs, after the one of CPython on a 64-bit platform: the
  duration is converted to nanoseconds in a signed 64-bit integer, and the call raises
  \<^verbatim>\<open>OverflowError\<close> when it does not fit (from about 9.2 thousand million seconds on) and
  \<^verbatim>\<open>ValueError\<close> when it is negative. Rounding at the bound itself is left out.
\<close>

definition time_sleep :: "real \<Rightarrow> string option" where
  "time_sleep secs =
     (if secs < 0 then Some ''ValueError: sleep length must be non-negative''
      else if secs * 1000000000 > 9223372036854775807 then
        Some ''OverflowError: timestamp too large to convert to C _PyTime_t''
      else None)"

section \<open>Properties\<close>

subsection \<open>One invocation\<close>

lemma or_success_codes_idem [simp]:
  "or_success_codes (Some (or_success_codes cs)) = or_success_codes cs"
  by (simp add: or_success_codes_def split: option.splits)

lemma or_success_idem [simp]: "or_success (Some (or_success c)) = or_success c"
  by (simp add: or_success_def)

lemma or_error_idem [simp]: "or_error (Some (or_error c)) = or_error c"
  by (simp add: or_error_def)

lemma mdr_invalid_attempts:
  "num_attempts \<le> 0 \<Longrightarrow>
   make_durable_request sleep room meth url num_attempts delay success_codes success error
     json s =
     (Raised (ValueError ''The value of `num_attempts` must be greater than 0.''), [], s)"
  by (subst make_durable_request.simps) simp

lemma mdr_invalid_delay:
  "0 < num_attempts \<Longrightarrow> delay < 0 \<Longrightarrow>
   make_durable_request sleep room meth url num_attempts delay success_codes success error
     json s =
     (Raised (ValueError ''The value of `delay` must be greater than or equal to 0.''), [], s)"
  by (subst make_durable_request.simps) simp

lemma mdr_other_exception:
  assumes "0 < num_attempts" "0 \<le> delay"
    and "meth (method_kwargs url json) s = (Other_exception e, s1)"
  shows "make_durable_request sleep room meth url num_attempts delay success_codes success
     error json s =
     (Raised (Transport_exn e), [Call (method_kwargs url json)], s1)"
  using assms by (subst make_durable_request.simps) (simp add: execute_request_def)

lemma mdr_success:
  assumes "0 < num_attempts" "0 \<le> delay"
    and "meth (method_kwargs url json) s = (Resp r, s1)"
    and "\<not> (500 \<le> status_code r \<and> status_code r < 600)"
    and "status_code r \<in> set (or_success_codes success_codes)"
  shows "make_durable_request sleep room meth url num_attempts delay success_codes success
     error json s =
     (Raised (Success_exn (or_success success) r),
      [Call (method_kwargs url json), Log INFO ''Request was successful.''], s1)"
  using assms
  by (subst make_durable_request.simps) (auto simp add: execute_request_def process_outcomes_def)

lemma mdr_client_error:
  assumes "0 < num_attempts" "0 \<le> delay"
    and "meth (method_kwargs url json) s = (Resp r, s1)"
    and "\<not> (500 \<le> status_code r \<and> status_code r < 600)"
    and "status_code r \<notin> set (or_success_codes success_codes)"
  shows "make_durable_request sleep room meth url num_attempts delay success_codes success
     error json s =
     (Raised (Error_exn (or_error error)
        (''Could not complete request due to stauts code '' @ str_int (status_code r)
           @ '': '' @ resp_text r)),
      [Call (method_kwargs url json),
       Log ERROR (''Could not complete request due to status code '' @ str_int (status_code r)
           @ '': '' @ resp_text r)], s1)"
  using assms
  by (subst make_durable_request.simps) (auto simp add: execute_request_def process_outcomes_def)

lemma mdr_exhausted:
  assumes "0 \<le> delay"
    and "retryable (fst (meth (method_kwargs url json) s))"
  shows "make_durable_request sleep room meth url 1 delay success_codes success error json s =
     (Raised (Error_exn (or_error error) ''Unable to complete request.''),
      [Call (method_kwargs url json), retry_log (fst (meth (method_kwargs url json) s))],
      snd (meth (method_kwargs url json) s))"
  using assms
  by (subst make_durable_request.simps)
     (auto simp add: execute_request_def process_outcomes_def retryable_def retry_log_def
        split: prod.splits transport_result.splits)

lemma mdr_sleep_raises:
  assumes "1 < num_attempts" "0 \<le> delay"
    and "retryable (fst (meth (method_kwargs url json) s))"
    and "sleep delay = Some x"
  shows "make_durable_request sleep room meth url num_attempts delay success_codes success
     error json s =
     (Raised (Sleep_exn x),
      [Call (method_kwargs url json), retry_log (fst (meth (method_kwargs url json) s)),
       Log INFO ''Will retry request.'', Sleep delay],
      snd (meth (method_kwargs url json) s))"
  using assms
  by (subst make_durable_request.simps)
     (auto simp add: execute_request_def process_outcomes_def retryable_def retry_log_def
        split: prod.splits transport_result.splits)

lemma mdr_no_room:
  assumes "1 < num_attempts" "0 \<le> delay"
    and "retryable (fst (meth (method_kwargs url json) s))"
    and "sleep delay = None"
  shows "make_durable_request sleep 0 meth url num_attempts delay success_codes success
     error json s =
     (Raised (RecursionError ''maximum recursion depth exceeded''),
      [Call (method_kwargs url json), retry_log (fst (meth (method_kwargs url json) s)),
       Log INFO ''Will retry request.'', Sleep delay],
      snd (meth (method_kwargs url json) s))"
  using assms
  by (subst make_durable_request.simps)
     (auto simp add: execute_request_def process_outcomes_def retryable_def retry_log_def
        split: prod.splits transport_result.splits)

lemma mdr_retry:
  assumes "1 < num_attempts" "0 \<le> delay"
    and "retryable (fst (meth (method_kwargs url json) s))"
    and "sleep delay = None" "0 < room"
  shows "make_durable_request sleep room meth url num_attempts delay success_codes success
     error json s =
     (case make_durable_request sleep (room - 1) meth url (num_attempts - 1) (delay * 2)
             (Some (or_success_codes success_codes)) (Some (or_success success))
             (Some (or_error error)) json (snd (meth (method_kwargs url json) s)) of
        (out, ev, s2) \<Rightarrow>
          (out,
           [Call (method_kwargs url json), retry_log (fst (meth (method_kwargs url json) s)),
            Log INFO ''Will retry request.'', Sleep delay] @ ev, s2))"
  using assms
  by (subst make_durable_request.simps)
     (auto simp add: execute_request_def process_outcomes_def retryable_def retry_log_def
        split: prod.splits transport_result.splits outcome.splits)

lemma mdr_normalise:
  "make_durable_request sleep room meth url num_attempts delay success_codes success error
     json s =
   make_durable_request sleep room meth url num_attempts delay
     (Some (or_success_codes success_codes)) (Some (or_success success)) (Some (or_error error))
     json s"
  by (rule trans [OF make_durable_request.simps], rule sym,
      rule trans [OF make_durable_request.simps],
      simp cong: if_cong sum.case_cong option.case_cong)

text \<open>The seven ways in which an invocation with valid arguments goes on.\<close>

lemma mdr_first_attempt
  [consumes 2, case_names other success client exhausted sleep_raises no_room retry]:
  assumes "0 < N" "0 \<le> d"
  obtains e where "fst (meth (method_kwargs url json) s) = Other_exception e"
      and "make_durable_request sleep room meth url N d sc su er json s =
        (Raised (Transport_exn e), [Call (method_kwargs url json)],
         snd (meth (method_kwargs url json) s))"
  | r where "fst (meth (method_kwargs url json) s) = Resp r"
      and "\<not> (500 \<le> status_code r \<and> status_code r < 600)"
      and "status_code r \<in> set (or_success_codes sc)"
      and "make_durable_request sleep room meth url N d sc su er json s =
        (Raised (Success_exn (or_success su) r),
         [Call (method_kwargs url json), Log INFO ''Request was successful.''],
         snd (meth (method_kwargs url json) s))"
  | r where "fst (meth (method_kwargs url json) s) = Resp r"
      and "\<not> (500 \<le> status_code r \<and> status_code r < 600)"
      and "status_code r \<notin> set (or_success_codes sc)"
      and "make_durable_request sleep room meth url N d sc su er json s =
        (Raised (Error_exn (or_error er)
           (''Could not complete request due to stauts code '' @ str_int (status_code r)
              @ '': '' @ resp_text r)),
         [Call (method_kwargs url json),
          Log ERROR (''Could not complete request due to status code ''
              @ str_int (status_code r) @ '': '' @ resp_text r)],
         snd (meth (method_kwargs url json) s))"
  | "retryable (fst (meth (method_kwargs url json) s))" and "N = 1"
      and "make_durable_request sleep room meth url N d sc su er json s =
        (Raised (Error_exn (or_error er) ''Unable to complete request.''),
         [Call (method_kwargs url json), retry_log (fst (meth (method_kwargs url json) s))],
         snd (meth (method_kwargs url json) s))"
  | x where "retryable (fst (meth (method_kwargs url json) s))" and "1 < N"
      and "sleep d = Some x"
      and "make_durable_request sleep room meth url N d sc su er json s =
        (Raised (Sleep_exn x),
         [Call (method_kwargs url json), retry_log (fst (meth (method_kwargs url json) s)),
          Log INFO ''Will retry request.'', Sleep d],
         snd (meth (method_kwargs url json) s))"
  | "retryable (fst (meth (method_kwargs url json) s))" and "1 < N"
      and "sleep d = None" and "room = 0"
      and "make_durable_request sleep room meth url N d sc su er json s =
        (Raised (RecursionError ''maximum recursion depth exceeded''),
         [Call (method_kwargs url json), retry_log (fst (meth (method_kwargs url json) s)),
          Log INFO ''Will retry request.'', Sleep d],
         snd (meth (method_kwargs url json) s))"
  | "retryable (fst (meth (method_kwargs url json) s))" and "1 < N"
      and "sleep d = None" and "0 < room"
      and "make_durable_request sleep room meth url N d sc su er json s =
        (case make_durable_request sleep (room - 1) meth url (N - 1) (d * 2)
                (Some (or_success_codes sc)) (Some (or_success su)) (Some (or_error er)) json
                (snd (meth (method_kwargs url json) s)) of
           (out, ev, s2) \<Rightarrow>
             (out,
              [Call (method_kwargs url json),
               retry_log (fst (meth (method_kwargs url json) s)),
               Log INFO ''Will retry request.'', Sleep d] @ ev, s2))"
proof -
  let ?kw = "method_kwargs url json"
  have m: "meth ?kw s = (fst (meth ?kw s), snd (meth ?kw s))" by simp
  show thesis
  proof (cases "retryable (fst (meth ?kw s))")
    case True
    show thesis
    proof (cases "N = 1")
      case one: True
      from mdr_exhausted [where meth = meth and url = url and json = json and s = s
          and sleep = sleep and room = room and success_codes = sc
          and success = su and error = er, OF assms(2) True] one that(4) True
      show thesis by simp
    next
      case False
      with assms have N: "1 < N" by simp
      show thesis
      proof (cases "sleep d")
        case (Some x)
        from mdr_sleep_raises [where meth = meth and url = url and json = json and s = s
            and sleep = sleep and room = room and success_codes = sc and success = su
            and error = er, OF N assms(2) True Some] that(5) True N Some
        show thesis by simp
      next
        case None
        show thesis
        proof (cases "room = 0")
          case zero: True
          from mdr_no_room [where meth = meth and url = url and json = json and s = s
              and sleep = sleep and success_codes = sc and success = su and error = er,
              OF N assms(2) True None] that(6) True N None zero
          show thesis by simp
        next
          case False
          then have room: "0 < room" by simp
          from mdr_retry [where meth = meth and url = url and json = json and s = s
              and sleep = sleep and room = room and success_codes = sc and success = su
              and error = er,
              OF N assms(2) True None room] that(7) True N None room
          show thesis by simp
        qed
      qed
    qed
  next
    case False
    show thesis
    proof (cases "fst (meth ?kw s)")
      case (Resp r)
      with False have r: "\<not> (500 \<le> status_code r \<and> status_code r < 600)"
        by (simp add: retryable_def)
      from Resp m have m': "meth ?kw s = (Resp r, snd (meth ?kw s))" by simp
      show thesis
      proof (cases "status_code r \<in> set (or_success_codes sc)")
        case True
        from that(2) [OF Resp r True]
          mdr_success [where meth = meth and url = url and json = json and s = s
              and sleep = sleep and room = room and success = su and error = er,
            OF assms m' r True]
        show thesis by simp
      next
        case False
        from that(3) [OF Resp r False]
          mdr_client_error [where meth = meth and url = url and json = json and s = s
              and sleep = sleep and room = room and success = su
            and error = er, OF assms m' r False]
        show thesis by simp
      qed
    next
      case ConnectionError
      with False show thesis by (simp add: retryable_def)
    next
      case Socket_timeout
      with False show thesis by (simp add: retryable_def)
    next
      case (Other_exception e)
      with m have m': "meth ?kw s = (Other_exception e, snd (meth ?kw s))" by simp
      from that(1) [OF Other_exception]
        mdr_other_exception [where meth = meth and url = url and json = json and s = s
            and sleep = sleep and room = room and success_codes = sc
          and success = su and error = er, OF assms m']
      show thesis by simp
    qed
  qed
qed

subsection \<open>Runs of several attempts\<close>

lemma io_events_simps [simp]:
  "io_events [] = []"
  "io_events (Call kw # ev) = Call kw # io_events ev"
  "io_events (Sleep d # ev) = Sleep d # io_events ev"
  "io_events (Log l m # ev) = io_events ev"
  "io_events (ev @ ev') = io_events ev @ io_events ev'"
  by (simp_all add: io_events_def is_log_def)

lemma io_events_retry_log [simp]: "io_events (retry_log t # ev) = io_events ev"
  by (simp add: retry_log_def split: transport_result.splits)

lemma retry_log_not_call [simp]: "retry_log t \<noteq> Call kw" "Call kw \<noteq> retry_log t"
  by (simp_all add: retry_log_def split: transport_result.splits)

lemma backoff_trace_0 [simp]: "backoff_trace kw d 0 = []"
  by (simp add: backoff_trace_def)

lemma backoff_trace_Suc:
  "backoff_trace kw d (Suc k) = Call kw # Sleep d # backoff_trace kw (d * 2) k"
proof -
  have "[0..<Suc k] = 0 # map Suc [0..<k]"
    by (simp add: upt_conv_Cons map_Suc_upt del: upt_Suc)
  then show ?thesis
    by (simp add: backoff_trace_def comp_def mult.assoc del: upt_Suc)
qed

lemma fst_retry_run [simp]:
  "fst (case p of (out, ev, s2) \<Rightarrow> (out, f ev, s2)) = fst p"
  by (cases p) auto

lemma events_retry_run [simp]:
  "fst (snd (case p of (out, ev, s2) \<Rightarrow> (out, f ev, s2))) = f (fst (snd p))"
  by (cases p) auto

lemma state_retry_run [simp]:
  "snd (snd (case p of (out, ev, s2) \<Rightarrow> (out, f ev, s2))) = snd (snd p)"
  by (cases p) auto

lemma state_after_Suc_right:
  "state_after meth kw (Suc k) s = snd (meth kw (state_after meth kw k s))"
  by (induction k arbitrary: s) simp_all

text \<open>
  After \<open>k\<close> attempts with retryable outcomes, each followed by a sleep that returns and a
  self-call for which there is room, the run goes on as a run with \<open>k\<close> attempts less, a
  delay doubled \<open>k\<close> times and \<open>k\<close> invocations less of room.
\<close>

lemma mdr_after_retries:
  assumes "0 \<le> d" "int k < N" "k \<le> room"
    and "\<forall>i<k. retryable (fst (meth (method_kwargs url json)
            (state_after meth (method_kwargs url json) i s)))"
    and "\<forall>i<k. sleep (d * 2 ^ i) = None"
  shows "\<exists>pre. io_events pre = backoff_trace (method_kwargs url json) d k \<and>
     make_durable_request sleep room meth url N d sc su er json s =
       (case make_durable_request sleep (room - k) meth url (N - int k) (d * 2 ^ k)
               (Some (or_success_codes sc)) (Some (or_success su)) (Some (or_error er)) json
               (state_after meth (method_kwargs url json) k s) of
          (out, ev, s2) \<Rightarrow> (out, pre @ ev, s2))"
  using assms
proof (induction k arbitrary: N d s sc su er room)
  case 0
  have "make_durable_request sleep room meth url N d sc su er json s =
     (case make_durable_request sleep room meth url N d (Some (or_success_codes sc))
             (Some (or_success su)) (Some (or_error er)) json s of
        (out, ev, s2) \<Rightarrow> (out, [] @ ev, s2))"
    using mdr_normalise [of sleep room meth url N d sc su er json s]
    by (simp split: prod.splits)
  then show ?case
    by (intro exI [of _ "[]"]) simp
next
  case (Suc k)
  let ?kw = "method_kwargs url json"
  let ?s1 = "snd (meth ?kw s)"
  from Suc.prems have first: "retryable (fst (meth ?kw s))"
    by (metis state_after.simps(1) zero_less_Suc)
  from Suc.prems have rest: "\<forall>i<k. retryable (fst (meth ?kw (state_after meth ?kw i ?s1)))"
    by (metis Suc_less_eq state_after.simps(2))
  from Suc.prems(5) have sl: "sleep d = None" by (metis power_0 mult.right_neutral zero_less_Suc)
  have sls: "\<forall>i<k. sleep (d * 2 * 2 ^ i) = None"
  proof (intro allI impI)
    fix i assume "i < k"
    then have "sleep (d * 2 ^ Suc i) = None" using Suc.prems(5) by (metis Suc_less_eq)
    then show "sleep (d * 2 * 2 ^ i) = None" by (simp add: mult.assoc)
  qed
  from Suc.prems have N: "1 < N" "int k < N - 1" by auto
  from Suc.prems have d: "0 \<le> d * 2" by simp
  from Suc.prems have room: "0 < room" "k \<le> room - 1" by auto
  from Suc.IH [OF d N(2) room(2) rest sls, of "Some (or_success_codes sc)"
      "Some (or_success su)" "Some (or_error er)"]
  obtain pre where pre: "io_events pre = backoff_trace ?kw (d * 2) k"
    and run: "make_durable_request sleep (room - 1) meth url (N - 1) (d * 2)
        (Some (or_success_codes sc)) (Some (or_success su)) (Some (or_error er)) json ?s1 =
       (case make_durable_request sleep (room - 1 - k) meth url (N - 1 - int k)
               (d * 2 * 2 ^ k)
               (Some (or_success_codes sc)) (Some (or_success su)) (Some (or_error er)) json
               (state_after meth ?kw k ?s1) of
          (out, ev, s2) \<Rightarrow> (out, pre @ ev, s2))"
    by auto
  let ?pre = "[Call ?kw, retry_log (fst (meth ?kw s)), Log INFO ''Will retry request.'',
      Sleep d] @ pre"
  have eq: "N - 1 - int k = N - int (Suc k)" "d * 2 * 2 ^ k = d * 2 ^ Suc k"
    "room - 1 - k = room - Suc k"
    by simp_all
  have "io_events ?pre = backoff_trace ?kw d (Suc k)"
    by (simp add: pre backoff_trace_Suc)
  moreover have "make_durable_request sleep room meth url N d sc su er json s =
       (case make_durable_request sleep (room - Suc k) meth url (N - int (Suc k))
               (d * 2 ^ Suc k)
               (Some (or_success_codes sc)) (Some (or_success su)) (Some (or_error er)) json
               (state_after meth ?kw (Suc k) s) of
          (out, ev, s2) \<Rightarrow> (out, ?pre @ ev, s2))"
    unfolding mdr_retry [where meth = meth and url = url and json = json and s = s
        and sleep = sleep and room = room and success_codes = sc and success = su
        and error = er, OF N(1) Suc.prems(1) first sl room(1)] run eq
    by (simp split: prod.splits)
  ultimately show ?case by blast
qed

subsection \<open>Facts about every run\<close>

lemma method_kwargs_eq:
  "method_kwargs url json =
     (case json of
        None \<Rightarrow> Kw_url url
      | Some b \<Rightarrow> if b = [] then Kw_url url else Kw_url_json url b)"
  by (simp add: method_kwargs_def truthy_dict_def split: option.splits)

lemma mdr_invalid_events:
  assumes "\<not> (0 < N \<and> 0 \<le> d)"
  shows "make_durable_request sleep room meth url N d sc su er json s =
    (fst (make_durable_request sleep room meth url N d sc su er json s), [], s)"
proof (cases "N \<le> 0")
  case True
  then show ?thesis by (simp add: mdr_invalid_attempts)
next
  case False
  with assms have "0 < N" "d < 0" by auto
  then show ?thesis by (simp add: mdr_invalid_delay)
qed

lemma calls_of_valid_run:
  assumes "0 < N" "0 \<le> d"
  shows "Call (method_kwargs url json) \<in> set (fst (snd (make_durable_request sleep room meth
            url N d sc su er json s)))
       \<and> (\<forall>kw. Call kw \<in> set (fst (snd (make_durable_request sleep room meth url N d sc su er
                   json s)))
             \<longrightarrow> kw = method_kwargs url json)"
  using assms
proof (induction "nat N" arbitrary: N d s sc su er room)
  case 0
  then show ?case by simp
next
  case (Suc n)
  from Suc.prems show ?case
  proof (cases rule: mdr_first_attempt [where meth = meth and url = url and json = json
        and s = s and sleep = sleep and room = room and sc = sc and su = su and er = er])
    case (other e)
    then show ?thesis by simp
  next
    case (success r)
    then show ?thesis by simp
  next
    case (client r)
    then show ?thesis by simp
  next
    case exhausted
    then show ?thesis by simp
  next
    case (sleep_raises x)
    then show ?thesis by simp
  next
    case no_room
    then show ?thesis by simp
  next
    case retry
    from retry(2) Suc.hyps(2) have n: "n = nat (N - 1)" "0 < N - 1" by auto
    from Suc.prems have d: "0 \<le> d * 2" by simp
    from Suc.hyps(1) [OF n d, of "room - 1" "Some (or_success_codes sc)"
        "Some (or_success su)" "Some (or_error er)" "snd (meth (method_kwargs url json) s)"]
    show ?thesis by (simp add: retry(5))
  qed
qed

lemma success_not_server_error:
  assumes "0 < N" "0 \<le> d"
    and "fst (make_durable_request sleep room meth url N d sc su er json s) =
      Raised (Success_exn c r)"
  shows "\<not> (500 \<le> status_code r \<and> status_code r < 600)"
  using assms
proof (induction "nat N" arbitrary: N d s sc su er room)
  case 0
  then show ?case by simp
next
  case (Suc n)
  from Suc.prems(1,2) show ?case
  proof (cases rule: mdr_first_attempt [where meth = meth and url = url and json = json
        and s = s and sleep = sleep and room = room and sc = sc and su = su and er = er])
    case (other e)
    with Suc.prems(3) show ?thesis by simp
  next
    case (success r')
    with Suc.prems(3) show ?thesis by simp
  next
    case (client r')
    with Suc.prems(3) show ?thesis by simp
  next
    case exhausted
    with Suc.prems(3) show ?thesis by simp
  next
    case (sleep_raises x)
    with Suc.prems(3) show ?thesis by simp
  next
    case no_room
    with Suc.prems(3) show ?thesis by simp
  next
    case retry
    from retry(2) Suc.hyps(2) have n: "n = nat (N - 1)" "0 < N - 1" by auto
    from Suc.prems have d: "0 \<le> d * 2" by simp
    from Suc.prems(3) have "fst (make_durable_request sleep (room - 1) meth url (N - 1) (d * 2)
        (Some (or_success_codes sc)) (Some (or_success su)) (Some (or_error er)) json
        (snd (meth (method_kwargs url json) s))) = Raised (Success_exn c r)"
      by (simp add: retry(5))
    from Suc.hyps(1) [OF n d this] show ?thesis .
  qed
qed

text \<open>
  Without room for the next self-call, a run of retryable outcomes ends with
  \<^verbatim>\<open>RecursionError\<close>.
\<close>

lemma mdr_stack_exhausted:
  assumes "0 \<le> d" "int room + 1 < N"
    and "\<forall>i\<le>room. retryable (fst (meth (method_kwargs url json)
            (state_after meth (method_kwargs url json) i s)))"
    and "\<forall>i\<le>room. sleep (d * 2 ^ i) = None"
  shows "fst (make_durable_request sleep room meth url N d sc su er json s) =
    Raised (RecursionError ''maximum recursion depth exceeded'')"
proof -
  let ?kw = "method_kwargs url json"
  have k: "int room < N" "room \<le> room" using assms(2) by auto
  have r: "\<forall>i<room. retryable (fst (meth ?kw (state_after meth ?kw i s)))"
    and sl: "\<forall>i<room. sleep (d * 2 ^ i) = None"
    using assms(3,4) by auto
  from mdr_after_retries [OF assms(1) k r sl, of sc su er]
  obtain pre where run: "make_durable_request sleep room meth url N d sc su er json s =
       (case make_durable_request sleep (room - room) meth url (N - int room) (d * 2 ^ room)
               (Some (or_success_codes sc)) (Some (or_success su)) (Some (or_error er)) json
               (state_after meth ?kw room s) of
          (out, ev, s2) \<Rightarrow> (out, pre @ ev, s2))"
    by auto
  have v: "1 < N - int room" "0 \<le> d * 2 ^ room" using assms(1,2) by simp_all
  have last: "retryable (fst (meth ?kw (state_after meth ?kw room s)))"
    "sleep (d * 2 ^ room) = None"
    using assms(3,4) by auto
  show ?thesis
    unfolding run
    using mdr_no_room [where meth = meth and url = url and json = json
        and s = "state_after meth ?kw room s" and sleep = sleep
        and success_codes = "Some (or_success_codes sc)" and success = "Some (or_success su)"
        and error = "Some (or_error er)", OF v last]
    by simp
qed

subsection \<open>Validation of the arguments\<close>

text \<open>
  Claim C6. A call with \<open>num_attempts \<le> 0\<close> or \<open>delay < 0\<close> raises a \<^verbatim>\<open>ValueError\<close> at once:
  the list of events is empty, so the transport is not called and nothing sleeps, and the
  state of the transport is untouched.
\<close>

theorem invalid_configuration_fails_before_io:
  assumes "num_attempts \<le> 0 \<or> delay < 0"
  shows "\<exists>msg. make_durable_request sleep room method url num_attempts delay success_codes
            success error json s = (Raised (ValueError msg), [], s)"
proof (cases "num_attempts \<le> 0")
  case True
  then show ?thesis by (simp add: mdr_invalid_attempts)
next
  case False
  with assms have "0 < num_attempts" "delay < 0" by auto
  then show ?thesis by (simp add: mdr_invalid_delay)
qed

theorem invalid_configuration_witness:
  "(\<exists>msg. make_durable_request time_sleep 998 (replay []) ''http://example.com'' 0 1
            None None None None 0 = (Raised (ValueError msg), [], 0))
   \<and> (\<exists>msg. make_durable_request time_sleep 998 (replay []) ''http://example.com'' 3 (- 1)
            None None None None 0 = (Raised (ValueError msg), [], 0))"
proof
  show "\<exists>msg. make_durable_request time_sleep 998 (replay []) ''http://example.com'' 0 1
            None None None None 0 = (Raised (ValueError msg), [], 0)"
    by (rule invalid_configuration_fails_before_io) simp
  show "\<exists>msg. make_durable_request time_sleep 998 (replay []) ''http://example.com'' 3 (- 1)
            None None None None 0 = (Raised (ValueError msg), [], 0)"
    by (rule invalid_configuration_fails_before_io) simp
qed

text \<open>
  Claim C10. An empty list of success codes is falsy, so \<^verbatim>\<open>success_codes or [...]\<close> replaces
  it by the default list \<open>[200, 201, 202, 204]\<close>: the run is the run with the default list,
  and the run with no list at all. So the empty list does not configure an empty success
  set: with it, a first response with one of the four default codes ends the call with
  success, and the other first responses outside \<open>[500, 600)\<close> end it with the error of a
  client error.
\<close>

theorem empty_success_codes_is_default:
  "make_durable_request sleep room method url num_attempts delay (Some []) success error json s
     = make_durable_request sleep room method url num_attempts delay
         (Some [200, 201, 202, 204]) success error json s
   \<and> make_durable_request sleep room method url num_attempts delay (Some []) success error json s
     = make_durable_request sleep room method url num_attempts delay None success error json s
   \<and> (0 < num_attempts \<and> 0 \<le> delay \<and> method (method_kwargs url json) s = (Resp r, s1)
        \<and> status_code r \<in> {200, 201, 202, 204} \<longrightarrow>
      make_durable_request sleep room method url num_attempts delay (Some []) success error
        json s =
        (Raised (Success_exn (or_success success) r),
         [Call (method_kwargs url json), Log INFO ''Request was successful.''], s1))
   \<and> (0 < num_attempts \<and> 0 \<le> delay \<and> method (method_kwargs url json) s = (Resp r, s1)
        \<and> status_code r \<notin> {200, 201, 202, 204}
        \<and> \<not> (500 \<le> status_code r \<and> status_code r < 600) \<longrightarrow>
      fst (make_durable_request sleep room method url num_attempts delay (Some []) success
        error json s) =
        Raised (Error_exn (or_error error)
          (''Could not complete request due to stauts code '' @ str_int (status_code r)
             @ '': '' @ resp_text r)))"
proof -
  let ?run = "\<lambda>cs. make_durable_request sleep room method url num_attempts delay cs success
    error json s"
  let ?norm = "make_durable_request sleep room method url num_attempts delay
     (Some [200, 201, 202, 204]) (Some (or_success success)) (Some (or_error error)) json s"
  have codes: "or_success_codes (Some []) = [200, 201, 202, 204]"
    by (simp add: or_success_codes_def)
  have "?run (Some []) = ?norm"
    using mdr_normalise [of sleep room "method" url num_attempts delay "Some []" success error
        json s]
    by (simp add: or_success_codes_def)
  moreover have "?run (Some [200, 201, 202, 204]) = ?norm"
    using mdr_normalise [of sleep room "method" url num_attempts delay
        "Some [200, 201, 202, 204]" success error json s]
    by (simp add: or_success_codes_def)
  moreover have "?run None = ?norm"
    using mdr_normalise [of sleep room "method" url num_attempts delay None success error
        json s]
    by (simp add: or_success_codes_def)
  moreover have "?run (Some []) =
        (Raised (Success_exn (or_success success) r),
         [Call (method_kwargs url json), Log INFO ''Request was successful.''], s1)"
    if "0 < num_attempts" "0 \<le> delay" "method (method_kwargs url json) s = (Resp r, s1)"
      "status_code r \<in> {200, 201, 202, 204}"
    using that by (intro mdr_success) (auto simp add: codes)
  moreover have "fst (?run (Some [])) =
        Raised (Error_exn (or_error error)
          (''Could not complete request due to stauts code '' @ str_int (status_code r)
             @ '': '' @ resp_text r))"
    if "0 < num_attempts" "0 \<le> delay" "method (method_kwargs url json) s = (Resp r, s1)"
      "status_code r \<notin> {200, 201, 202, 204}"
      "\<not> (500 \<le> status_code r \<and> status_code r < 600)"
  proof -
    from that have "status_code r \<notin> set (or_success_codes (Some []))"
      by (simp add: codes)
    from mdr_client_error [where meth = "method" and url = url and json = json and s = s
        and sleep = sleep and room = room and success = success and error = error,
        OF that(1,2,3,5) this]
    show ?thesis by simp
  qed
  ultimately show ?thesis by simp
qed

theorem empty_success_codes_witness:
  "make_durable_request time_sleep 998
     (replay [Resp \<lparr>status_code = 200, resp_text = ''Cool.''\<rparr>])
     ''http://google.com/'' 2 2 (Some []) None None None 0 =
   (Raised (Success_exn RequestSuccess \<lparr>status_code = 200, resp_text = ''Cool.''\<rparr>),
    [Call (Kw_url ''http://google.com/''), Log INFO ''Request was successful.''], 1)
   \<and> fst (make_durable_request time_sleep 998
     (replay [Resp \<lparr>status_code = 404, resp_text = ''Not Found''\<rparr>])
     ''http://google.com/'' 2 2 (Some []) None None None 0) =
   Raised (Error_exn RequestError
     ''Could not complete request due to stauts code 404: Not Found'')"
  using empty_success_codes_is_default [of time_sleep 998
      "replay [Resp \<lparr>status_code = 200, resp_text = ''Cool.''\<rparr>]" "''http://google.com/''"
      2 2 None None None 0 "\<lparr>status_code = 200, resp_text = ''Cool.''\<rparr>" 1,
      THEN conjunct2, THEN conjunct2, THEN conjunct1]
    empty_success_codes_is_default [of time_sleep 998
      "replay [Resp \<lparr>status_code = 404, resp_text = ''Not Found''\<rparr>]" "''http://google.com/''"
      2 2 None None None 0 "\<lparr>status_code = 404, resp_text = ''Not Found''\<rparr>" 1,
      THEN conjunct2, THEN conjunct2, THEN conjunct2]
  by (simp add: replay_def method_kwargs_def or_success_def or_error_def
      str_int_def str_nat.simps digit_char_def)

subsection \<open>Terminal outcomes of the first attempt\<close>

text \<open>
  Claim C4. With \<open>num_attempts \<ge> 1\<close> (and a valid delay, without which there is no
  attempt), a first response whose status code is neither in \<open>[500, 600)\<close> nor a success
  code ends the call after that one transport call, with no sleep, whatever the budget:
  the error of the configured class carries the status code and the body in its message.
\<close>

theorem client_error_is_fatal_at_once:
  assumes "1 \<le> num_attempts" "0 \<le> delay"
    and "method (method_kwargs url json) s = (Resp r, s1)"
    and "\<not> (500 \<le> status_code r \<and> status_code r < 600)"
    and "status_code r \<notin> set (or_success_codes success_codes)"
  shows "make_durable_request sleep room method url num_attempts delay success_codes success
     error json s =
     (Raised (Error_exn (or_error error)
        (''Could not complete request due to stauts code '' @ str_int (status_code r)
           @ '': '' @ resp_text r)),
      [Call (method_kwargs url json),
       Log ERROR (''Could not complete request due to status code '' @ str_int (status_code r)
           @ '': '' @ resp_text r)], s1)"
  using assms by (intro mdr_client_error) auto

theorem client_error_witness:
  "make_durable_request time_sleep 998
     (replay [Resp \<lparr>status_code = 400, resp_text = ''Bad Request''\<rparr>])
     ''https://example.com/resource'' 3 0 None None None (Some resources_json) 0 =
   (Raised (Error_exn RequestError
      ''Could not complete request due to stauts code 400: Bad Request''),
    [Call (Kw_url_json ''https://example.com/resource'' resources_json),
     Log ERROR ''Could not complete request due to status code 400: Bad Request''], 1)"
  using client_error_is_fatal_at_once [of 3 0
      "replay [Resp \<lparr>status_code = 400, resp_text = ''Bad Request''\<rparr>]"
      "''https://example.com/resource''" "Some resources_json" 0
      "\<lparr>status_code = 400, resp_text = ''Bad Request''\<rparr>" 1 None time_sleep 998 None None]
  by (simp add: replay_def method_kwargs_def truthy_dict_def resources_json_def
      or_success_codes_def or_error_def str_int_def str_nat.simps digit_char_def)

subsection \<open>Success on the first attempt\<close>

text \<open>
  A status code from 500 to 599 is tested before the success codes: with \<open>[503]\<close> as the
  success codes and a transport that answers 503, the first response is in the success
  set, and yet the call retries, sleeps, and ends with the error of an exhausted budget.
\<close>

theorem success_code_5xx_counterexample:
  "status_code \<lparr>status_code = 503, resp_text = ''Busy''\<rparr> \<in> set (or_success_codes (Some [503]))
   \<and> make_durable_request time_sleep 998
       (replay [Resp \<lparr>status_code = 503, resp_text = ''Busy''\<rparr>])
       ''http://google.com/'' 2 2 (Some [503]) None None None 0 =
     (Raised (Error_exn RequestError ''Unable to complete request.''),
      [Call (Kw_url ''http://google.com/''), Log WARNING ''Server error.'',
       Log INFO ''Will retry request.'', Sleep 2,
       Call (Kw_url ''http://google.com/''), Log WARNING ''Server error.''], 2)"
  by (simp add: make_durable_request.simps execute_request_def process_outcomes_def
      replay_def time_sleep_def method_kwargs_def or_success_codes_def or_error_def
      or_success_def)

text \<open>
  Claim C3, amended. With \<open>num_attempts \<ge> 1\<close> and \<open>delay \<ge> 0\<close>, a first response whose status
  code is among the success codes and is not in \<open>[500, 600)\<close> ends the call at once with
  the configured success class carrying that response: one transport call, no sleep.
\<close>

theorem success_on_first_attempt:
  assumes "1 \<le> num_attempts" "0 \<le> delay"
    and "method (method_kwargs url json) s = (Resp r, s1)"
    and "status_code r \<in> set (or_success_codes success_codes)"
    and "\<not> (500 \<le> status_code r \<and> status_code r < 600)"
  shows "make_durable_request sleep room method url num_attempts delay success_codes success
     error json s =
     (Raised (Success_exn (or_success success) r),
      [Call (method_kwargs url json), Log INFO ''Request was successful.''], s1)"
  using assms by (intro mdr_success) auto

theorem success_on_first_attempt_witness:
  "make_durable_request time_sleep 998
     (replay [Resp \<lparr>status_code = 200, resp_text = ''Cool.''\<rparr>])
     ''http://google.com/'' 2 2 (Some [200]) None None None 0 =
   (Raised (Success_exn RequestSuccess \<lparr>status_code = 200, resp_text = ''Cool.''\<rparr>),
    [Call (Kw_url ''http://google.com/''), Log INFO ''Request was successful.''], 1)"
  using success_on_first_attempt [of 2 2
      "replay [Resp \<lparr>status_code = 200, resp_text = ''Cool.''\<rparr>]" "''http://google.com/''" None 0
      "\<lparr>status_code = 200, resp_text = ''Cool.''\<rparr>" 1 "Some [200]" time_sleep 998 None None]
  by (simp add: replay_def method_kwargs_def or_success_codes_def or_success_def)

text \<open>
  Claim C5. \<^verbatim>\<open>make_durable_post\<close> configures the success codes \<open>[201, 409]\<close>: with
  \<open>num_attempts \<ge> 1\<close> (and a valid delay, without which there is no attempt), a first
  response with status 201 or 409 is returned to the caller as a value, after one transport
  call and no sleep; any other first response outside \<open>[500, 600)\<close> ends the call with a
  \<^verbatim>\<open>StoreError\<close>.
\<close>

theorem post_returns_response:
  assumes "1 \<le> num_attempts" "0 \<le> delay"
    and "post (method_kwargs url (Some json)) s = (Resp r, s1)"
  shows "(status_code r \<in> {201, 409} \<longrightarrow>
            make_durable_post sleep room post url num_attempts delay json s =
              (Returned r,
               [Call (method_kwargs url (Some json)), Log INFO ''Request was successful.''], s1))
       \<and> (status_code r \<notin> {201, 409}
            \<and> \<not> (500 \<le> status_code r \<and> status_code r < 600) \<longrightarrow>
            (\<exists>msg line. make_durable_post sleep room post url num_attempts delay json s =
              (Raised (Error_exn StoreError msg),
               [Call (method_kwargs url (Some json)), Log ERROR line], s1)))"
proof (cases "status_code r \<in> {201, 409}")
  case True
  then have "status_code r \<in> set (or_success_codes (Some [201, 409]))"
    and "\<not> (500 \<le> status_code r \<and> status_code r < 600)"
    by (auto simp add: or_success_codes_def)
  with assms
  have "make_durable_request sleep room post url num_attempts delay (Some [201, 409])
          (Some StoreSuccess) (Some StoreError) (Some json) s =
        (Raised (Success_exn (or_success (Some StoreSuccess)) r),
         [Call (method_kwargs url (Some json)), Log INFO ''Request was successful.''], s1)"
    by (intro mdr_success) auto
  with True show ?thesis
    by (simp add: make_durable_post_def or_success_def)
next
  case False
  show ?thesis
  proof (cases "500 \<le> status_code r \<and> status_code r < 600")
    case True
    with False show ?thesis by simp
  next
    case ok: False
    from False have "status_code r \<notin> set (or_success_codes (Some [201, 409]))"
      by (simp add: or_success_codes_def)
    with assms ok
    have "make_durable_request sleep room post url num_attempts delay (Some [201, 409])
            (Some StoreSuccess) (Some StoreError) (Some json) s =
          (Raised (Error_exn (or_error (Some StoreError))
             (''Could not complete request due to stauts code '' @ str_int (status_code r)
                @ '': '' @ resp_text r)),
           [Call (method_kwargs url (Some json)),
            Log ERROR (''Could not complete request due to status code ''
                @ str_int (status_code r) @ '': '' @ resp_text r)], s1)"
      by (intro mdr_client_error) auto
    with False show ?thesis
      by (simp add: make_durable_post_def or_error_def)
  qed
qed

theorem post_returns_response_witness:
  "make_durable_post time_sleep 998
     (replay [Resp \<lparr>status_code = 409, resp_text = ''Conflict''\<rparr>])
     ''http://example.com/resource'' 3 1 [(''resource'', JDict [(''id'', JInt 1)])] 0 =
   (Returned \<lparr>status_code = 409, resp_text = ''Conflict''\<rparr>,
    [Call (Kw_url_json ''http://example.com/resource'' [(''resource'', JDict [(''id'', JInt 1)])]),
     Log INFO ''Request was successful.''], 1)"
  using post_returns_response [of 3 1
      "replay [Resp \<lparr>status_code = 409, resp_text = ''Conflict''\<rparr>]"
      "''http://example.com/resource''" "[(''resource'', JDict [(''id'', JInt 1)])]" 0
      "\<lparr>status_code = 409, resp_text = ''Conflict''\<rparr>" 1 time_sleep 998]
  by (simp add: replay_def method_kwargs_def truthy_dict_def)

subsection \<open>Exhausting the budget\<close>

text \<open>
  The doubled delay reaches \<^verbatim>\<open>time.sleep\<close> unchecked: with two attempts, a delay of ten
  thousand million seconds and a transport that fails with a connection error, the sleep
  after the first attempt raises \<^verbatim>\<open>OverflowError\<close>. The call ends with that exception after
  one transport call, not with the configured error after two.
\<close>

theorem sleep_overflow_counterexample:
  "make_durable_request time_sleep 998 (replay []) ''https://example.com/resource''
     2 10000000000 None None None (Some resources_json) 0 =
   (Raised (Sleep_exn ''OverflowError: timestamp too large to convert to C _PyTime_t''),
    [Call (Kw_url_json ''https://example.com/resource'' resources_json),
     Log WARNING ''Network error.'', Log INFO ''Will retry request.'', Sleep 10000000000], 1)"
  by (simp add: make_durable_request.simps execute_request_def process_outcomes_def
      replay_def time_sleep_def method_kwargs_def truthy_dict_def resources_json_def
      or_success_codes_def or_error_def or_success_def)

text \<open>
  Claim C1, amended. With \<open>N > 0\<close> attempts and an initial delay \<open>d \<ge> 0\<close>, if the outcome of
  the transport is retryable at each of the \<open>N\<close> attempts, each of the sleeps of \<open>d\<close>, \<open>2d\<close>,
  \<open>4d\<close>, ... (\<open>N - 1\<close> of them) returns, and the stack has room for the \<open>N - 1\<close> nested
  invocations, then the run consists of \<open>N\<close> transport calls with these sleeps between
  consecutive calls, the transport has been called \<open>N\<close> times, and the call ends with the
  configured error class and the fixed message \<^verbatim>\<open>Unable to complete request.\<close>, which holds
  nothing of the last outcome.
\<close>

theorem retries_exhausted:
  assumes "0 < N" "0 \<le> d"
    and "\<forall>i<nat N. retryable (fst (method (method_kwargs url json)
            (state_after method (method_kwargs url json) i s)))"
    and "\<forall>i<nat N - 1. sleep (d * 2 ^ i) = None"
    and "nat N - 1 \<le> room"
  shows "fst (make_durable_request sleep room method url N d success_codes success error
             json s) =
           Raised (Error_exn (or_error error) ''Unable to complete request.'')
       \<and> io_events (fst (snd (make_durable_request sleep room method url N d success_codes
             success error json s))) =
           concat (map (\<lambda>i. [Call (method_kwargs url json), Sleep (d * 2 ^ i)]) [0..<nat N - 1])
             @ [Call (method_kwargs url json)]
       \<and> snd (snd (make_durable_request sleep room method url N d success_codes success error
             json s)) =
           state_after method (method_kwargs url json) (nat N) s"
proof -
  let ?kw = "method_kwargs url json"
  let ?k = "nat N - 1"
  have k: "int ?k < N" "N - int ?k = 1" "Suc ?k = nat N" using assms(1) by auto
  have r: "\<forall>i<?k. retryable (fst (method ?kw (state_after method ?kw i s)))"
    using assms(3) by auto
  from mdr_after_retries [OF assms(2) k(1) assms(5) r assms(4),
      of success_codes success error]
  obtain pre where pre: "io_events pre = backoff_trace ?kw d ?k"
    and run: "make_durable_request sleep room method url N d success_codes success error json s
       = (case make_durable_request sleep (room - ?k) method url 1 (d * 2 ^ ?k)
               (Some (or_success_codes success_codes)) (Some (or_success success))
               (Some (or_error error)) json (state_after method ?kw ?k s) of
          (out, ev, s2) \<Rightarrow> (out, pre @ ev, s2))"
    unfolding k(2) by auto
  have d: "0 \<le> d * 2 ^ ?k" using assms(2) by simp
  have last: "retryable (fst (method ?kw (state_after method ?kw ?k s)))"
    using assms(1,3) by auto
  have fin: "snd (method ?kw (state_after method ?kw ?k s)) = state_after method ?kw (nat N) s"
    using state_after_Suc_right [of "method" ?kw ?k s] k(3) by simp
  show ?thesis
    unfolding run
      mdr_exhausted [where meth = "method" and url = url and json = json
        and s = "state_after method ?kw ?k s" and sleep = sleep and room = "room - ?k"
        and success_codes = "Some (or_success_codes success_codes)"
        and success = "Some (or_success success)" and error = "Some (or_error error)",
        OF d last] fin
    by (simp add: pre backoff_trace_def)
qed

theorem retries_exhausted_witness:
  "fst (make_durable_request time_sleep 998 (replay []) ''https://example.com/resource'' 3 1
          None None None (Some resources_json) 0) =
     Raised (Error_exn RequestError ''Unable to complete request.'')
   \<and> io_events (fst (snd (make_durable_request time_sleep 998 (replay [])
          ''https://example.com/resource'' 3 1 None None None (Some resources_json) 0))) =
     [Call (Kw_url_json ''https://example.com/resource'' resources_json), Sleep 1,
      Call (Kw_url_json ''https://example.com/resource'' resources_json), Sleep 2,
      Call (Kw_url_json ''https://example.com/resource'' resources_json)]
   \<and> snd (snd (make_durable_request time_sleep 998 (replay [])
          ''https://example.com/resource'' 3 1 None None None (Some resources_json) 0)) = 3"
proof -
  have sl: "\<forall>i<nat 3 - 1. time_sleep (1 * 2 ^ i) = None"
    by (auto simp add: time_sleep_def less_Suc_eq numeral_2_eq_2)
  have st: "state_after (replay [])
      (method_kwargs ''https://example.com/resource'' (Some resources_json)) (nat 3) 0 = 3"
    by (simp add: replay_def eval_nat_numeral)
  from retries_exhausted [of 3 1 "replay []" "''https://example.com/resource''"
      "Some resources_json" 0 time_sleep 998 None None None] sl
  show ?thesis
    unfolding st
    by (simp add: replay_def retryable_def or_error_def method_kwargs_def truthy_dict_def
        resources_json_def numeral_2_eq_2)
qed

subsection \<open>Every run ends with an exception\<close>




subsection \<open>The shape of the transport call\<close>

text \<open>
  The code tests \<^verbatim>\<open>if json:\<close>, the truthiness of the payload: an empty dictionary is a
  payload that was supplied, and the transport is called without it.
\<close>

theorem empty_body_dropped_counterexample:
  "make_durable_request time_sleep 998
     (replay [Resp \<lparr>status_code = 200, resp_text = ''Cool.''\<rparr>])
     ''http://google.com/'' 1 0 None None None (Some []) 0 =
   (Raised (Success_exn RequestSuccess \<lparr>status_code = 200, resp_text = ''Cool.''\<rparr>),
    [Call (Kw_url ''http://google.com/''), Log INFO ''Request was successful.''], 1)"
  by (simp add: make_durable_request.simps execute_request_def process_outcomes_def
      replay_def method_kwargs_def truthy_dict_def or_success_codes_def or_success_def)

text \<open>
  Claim C7, amended. At every attempt of every run the transport is called with the payload
  when a non-empty payload was supplied, and without a payload when none was supplied or
  the supplied one is empty; a run with valid arguments makes at least one such call.
\<close>

theorem transport_call_shape:
  "(\<forall>e \<in> set (fst (snd (make_durable_request sleep room method url N d sc su er json s))).
       \<forall>kw. e = Call kw \<longrightarrow>
         kw = (case json of
                 None \<Rightarrow> Kw_url url
               | Some b \<Rightarrow> if b = [] then Kw_url url else Kw_url_json url b))
   \<and> (0 < N \<and> 0 \<le> d \<longrightarrow>
        Call (case json of
                None \<Rightarrow> Kw_url url
              | Some b \<Rightarrow> if b = [] then Kw_url url else Kw_url_json url b)
          \<in> set (fst (snd (make_durable_request sleep room method url N d sc su er json s))))"
proof (cases "0 < N \<and> 0 \<le> d")
  case True
  with calls_of_valid_run [of N d url json sleep room "method" sc su er s]
  show ?thesis
    unfolding method_kwargs_eq by blast
next
  case False
  then show ?thesis
    using mdr_invalid_events [of N d sleep room "method" url sc su er json s]
    by (metis empty_iff empty_set fst_conv snd_conv)
qed

theorem transport_call_shape_witness:
  "Call (Kw_url_json ''https://example.com/resource'' resources_json)
        \<in> set (fst (snd (make_durable_request time_sleep 998
         (replay [Resp \<lparr>status_code = 504, resp_text = ''''\<rparr>,
                  Resp \<lparr>status_code = 201, resp_text = ''''\<rparr>])
         ''https://example.com/resource'' 3 0 None None None (Some resources_json) 0)))
   \<and> Call (Kw_url ''https://example.com/resource'')
        \<notin> set (fst (snd (make_durable_request time_sleep 998
         (replay [Resp \<lparr>status_code = 504, resp_text = ''''\<rparr>,
                  Resp \<lparr>status_code = 201, resp_text = ''''\<rparr>])
         ''https://example.com/resource'' 3 0 None None None (Some resources_json) 0)))"
  using transport_call_shape [of time_sleep 998
      "replay [Resp \<lparr>status_code = 504, resp_text = ''''\<rparr>,
               Resp \<lparr>status_code = 201, resp_text = ''''\<rparr>]"
      "''https://example.com/resource''" 3 0 None None None "Some resources_json" 0]
  by (auto simp add: resources_json_def)

subsection \<open>Server errors among the success codes\<close>

text \<open>
  Claim C9. A response with a status code from 500 to 599 is never the response of a
  successful end of the call, whatever the success codes are, also when they contain that
  status code: as a first response it is logged as a server error and retried, or, when
  the budget is one attempt, ends the call with the error of an exhausted budget.
\<close>

theorem server_error_is_never_success:
  assumes "500 \<le> status_code r" "status_code r < 600"
  shows "(\<forall>c. fst (make_durable_request sleep room method url N d success_codes success error
               json s)
             \<noteq> Raised (Success_exn c r))
     \<and> (0 < N \<and> 0 \<le> d \<and> method (method_kwargs url json) s = (Resp r, s1) \<longrightarrow>
          (N = 1 \<longrightarrow>
             make_durable_request sleep room method url N d success_codes success error json s
               = (Raised (Error_exn (or_error error) ''Unable to complete request.''),
                  [Call (method_kwargs url json), Log WARNING ''Server error.''], s1))
        \<and> (1 < N \<longrightarrow>
             (\<exists>ev. fst (snd (make_durable_request sleep room method url N d success_codes
                       success error json s)) =
               [Call (method_kwargs url json), Log WARNING ''Server error.'',
                Log INFO ''Will retry request.'', Sleep d] @ ev)))"
proof (intro conjI allI impI)
  fix c
  show "fst (make_durable_request sleep room method url N d success_codes success error json s)
          \<noteq> Raised (Success_exn c r)"
  proof (cases "0 < N \<and> 0 \<le> d")
    case True
    with success_not_server_error [of N d sleep room "method" url success_codes success error
        json s c r] assms
    show ?thesis by blast
  next
    case False
    then have "N \<le> 0 \<or> (0 < N \<and> d < 0)" by auto
    then show ?thesis
      by (auto simp add: mdr_invalid_attempts mdr_invalid_delay)
  qed
next
  assume a: "0 < N \<and> 0 \<le> d \<and> method (method_kwargs url json) s = (Resp r, s1)"
    and "N = 1"
  with assms have t: "retryable (fst (method (method_kwargs url json) s))"
    "retry_log (fst (method (method_kwargs url json) s)) = Log WARNING ''Server error.''"
    "snd (method (method_kwargs url json) s) = s1"
    by (simp_all add: retryable_def retry_log_def)
  from a have d: "0 \<le> d" by simp
  from mdr_exhausted [where meth = "method" and url = url and json = json and s = s
      and sleep = sleep and room = room and success_codes = success_codes
      and success = success and error = error, OF d t(1)] \<open>N = 1\<close> t(2,3)
  show "make_durable_request sleep room method url N d success_codes success error json s =
      (Raised (Error_exn (or_error error) ''Unable to complete request.''),
       [Call (method_kwargs url json), Log WARNING ''Server error.''], s1)"
    by simp
next
  assume a: "0 < N \<and> 0 \<le> d \<and> method (method_kwargs url json) s = (Resp r, s1)"
    and N: "1 < N"
  with assms have t: "retryable (fst (method (method_kwargs url json) s))"
    "retry_log (fst (method (method_kwargs url json) s)) = Log WARNING ''Server error.''"
    by (simp_all add: retryable_def retry_log_def)
  from a have v: "0 < N" "0 \<le> d" by simp_all
  from v show "\<exists>ev. fst (snd (make_durable_request sleep room method url N d success_codes
                     success error json s)) =
      [Call (method_kwargs url json), Log WARNING ''Server error.'',
       Log INFO ''Will retry request.'', Sleep d] @ ev"
  proof (cases rule: mdr_first_attempt [where meth = "method" and url = url and json = json
        and s = s and sleep = sleep and room = room and sc = success_codes and su = success
        and er = error])
    case (other e)
    with a show ?thesis by simp
  next
    case (success r')
    with a assms show ?thesis by simp
  next
    case (client r')
    with a assms show ?thesis by simp
  next
    case exhausted
    with N show ?thesis by simp
  next
    case (sleep_raises x)
    with t(2) show ?thesis by simp
  next
    case no_room
    with t(2) show ?thesis by simp
  next
    case retry
    with t(2) show ?thesis by simp
  qed
qed

theorem server_error_is_never_success_witness:
  "fst (make_durable_request time_sleep 998
       (replay [Resp \<lparr>status_code = 503, resp_text = ''Busy''\<rparr>])
       ''http://google.com/'' 1 2 (Some [503]) None None None 0)
     \<noteq> Raised (Success_exn RequestSuccess \<lparr>status_code = 503, resp_text = ''Busy''\<rparr>)
   \<and> make_durable_request time_sleep 998
       (replay [Resp \<lparr>status_code = 503, resp_text = ''Busy''\<rparr>])
       ''http://google.com/'' 1 2 (Some [503]) None None None 0 =
     (Raised (Error_exn RequestError ''Unable to complete request.''),
      [Call (Kw_url ''http://google.com/''), Log WARNING ''Server error.''], 1)"
  using server_error_is_never_success [of "\<lparr>status_code = 503, resp_text = ''Busy''\<rparr>"
      time_sleep 998 "replay [Resp \<lparr>status_code = 503, resp_text = ''Busy''\<rparr>]"
      "''http://google.com/''" 1 2 "Some [503]" None None None 0 1]
  by (simp add: replay_def method_kwargs_def or_error_def)

subsection \<open>Exceptions that are not caught\<close>

text \<open>
  Claim C8. Attempt \<open>k + 1\<close> takes place when it is within the budget and the first \<open>k\<close>
  attempts had retryable outcomes, each followed by a sleep that returned and a self-call
  for which the stack had room. When the transport then raises an exception other than a
  connection error or a socket timeout, the call ends with that exception: the run is the
  \<open>k\<close> retried attempts with their sleeps followed by the failing transport call alone, with
  no sleep and no attempt after it, and the transport has been called \<open>k + 1\<close> times.
\<close>

theorem unexpected_exception_propagates:
  assumes "0 \<le> d" "int k < N" "k \<le> room"
    and "\<forall>i<k. retryable (fst (method (method_kwargs url json)
            (state_after method (method_kwargs url json) i s)))"
    and "\<forall>i<k. sleep (d * 2 ^ i) = None"
    and "fst (method (method_kwargs url json)
            (state_after method (method_kwargs url json) k s)) = Other_exception e"
  shows "fst (make_durable_request sleep room method url N d success_codes success error
             json s) =
           Raised (Transport_exn e)
       \<and> io_events (fst (snd (make_durable_request sleep room method url N d success_codes
             success error json s))) =
           concat (map (\<lambda>i. [Call (method_kwargs url json), Sleep (d * 2 ^ i)]) [0..<k])
             @ [Call (method_kwargs url json)]
       \<and> snd (snd (make_durable_request sleep room method url N d success_codes success error
             json s)) =
           state_after method (method_kwargs url json) (Suc k) s"
proof -
  let ?kw = "method_kwargs url json"
  let ?sk = "state_after method ?kw k s"
  from mdr_after_retries [OF assms(1,2,3,4,5), of success_codes success error]
  obtain pre where pre: "io_events pre = backoff_trace ?kw d k"
    and run: "make_durable_request sleep room method url N d success_codes success error json s
       = (case make_durable_request sleep (room - k) method url (N - int k) (d * 2 ^ k)
               (Some (or_success_codes success_codes)) (Some (or_success success))
               (Some (or_error error)) json ?sk of
          (out, ev, s2) \<Rightarrow> (out, pre @ ev, s2))"
    by auto
  have v: "0 < N - int k" "0 \<le> d * 2 ^ k" using assms(1,2) by simp_all
  have m: "method ?kw ?sk = (Other_exception e, snd (method ?kw ?sk))"
    using assms(6) by (metis prod.collapse)
  show ?thesis
    unfolding run
      mdr_other_exception [where meth = "method" and url = url and json = json and s = ?sk
        and sleep = sleep and room = "room - k"
        and success_codes = "Some (or_success_codes success_codes)"
        and success = "Some (or_success success)" and error = "Some (or_error error)",
        OF v m]
    by (simp add: pre backoff_trace_def state_after_Suc_right del: state_after.simps)
qed

theorem unexpected_exception_witness:
  "fst (make_durable_request time_sleep 998
          (replay [Resp \<lparr>status_code = 504, resp_text = ''''\<rparr>, Other_exception ''ValueError''])
          ''http://127.0.0.1:8000/resource'' 3 5 None None None (Some resources_json) 0) =
           Raised (Transport_exn ''ValueError'')
   \<and> io_events (fst (snd (make_durable_request time_sleep 998
          (replay [Resp \<lparr>status_code = 504, resp_text = ''''\<rparr>, Other_exception ''ValueError''])
          ''http://127.0.0.1:8000/resource'' 3 5 None None None (Some resources_json) 0))) =
       [Call (Kw_url_json ''http://127.0.0.1:8000/resource'' resources_json), Sleep 5,
        Call (Kw_url_json ''http://127.0.0.1:8000/resource'' resources_json)]
   \<and> snd (snd (make_durable_request time_sleep 998
          (replay [Resp \<lparr>status_code = 504, resp_text = ''''\<rparr>, Other_exception ''ValueError''])
          ''http://127.0.0.1:8000/resource'' 3 5 None None None (Some resources_json) 0)) = 2"
  using unexpected_exception_propagates [of 5 1 3 998
      "replay [Resp \<lparr>status_code = 504, resp_text = ''''\<rparr>, Other_exception ''ValueError'']"
      "''http://127.0.0.1:8000/resource''" "Some resources_json" 0 time_sleep "''ValueError''"
      None None None]
  by (simp add: replay_def retryable_def time_sleep_def method_kwargs_def truthy_dict_def
      resources_json_def)

end
